theory Spec2Isabelle
  imports Complex_Main "HOL-Library.Signed_Division" "HOL-Library.Char_ord" "HOL-Library.List_Lexorder"
begin

section \<open>Data model (the schema)\<close>

text \<open>
  One record per table of the schema. Ids are JavaScript numbers holding integers
  (\<open>int\<close>); a nullable column is an \<open>option\<close>; text columns are strings. The storage runs
  on SQLite (database.ts), whose schema declares every timestamp column as
  \<open>integer(..., { mode: 'timestamp' })\<close>: the column holds whole seconds since the epoch,
  and the field of the record is that stored integer. A table is the list of its rows in
  rowid order, which is the order a \<open>select\<close> without \<open>orderBy\<close> yields and the order
  \<open>limit(1)\<close> cuts.

  Every id is declared \<open>INTEGER PRIMARY KEY AUTOINCREMENT\<close> (init-db.ts). For such a
  table the engine records the largest id it has ever given in its table
  \<open>sqlite_sequence\<close>, one row per table name, so that the id of a deleted row is never
  given again; that table is part of the store, a table without a row in it reading 0.
\<close>

record User =
  user_id :: int
  username :: string
  password :: string
  user_createdAt :: int

record Image =
  image_id :: int
  image_userId :: int
  path :: string
  image_description :: "string option"
  uploadedAt :: int

record Friend =
  friend_id :: int
  requesterId :: int
  addresseeId :: int
  status :: string
  friend_createdAt :: int

record Group =
  group_id :: int
  group_name :: string
  group_description :: "string option"
  createdBy :: int
  group_createdAt :: int

record GroupMember =
  gm_id :: int
  gm_groupId :: int
  gm_userId :: int
  joinedAt :: int

record ImageShare =
  share_id :: int
  share_imageId :: int
  share_userId :: "int option"
  share_groupId :: "int option"
  sharedAt :: int

record Notification =
  notif_id :: int
  notif_userId :: int
  notif_type :: string
  content :: string
  senderId :: "int option"
  notif_groupId :: "int option"
  notif_imageId :: "int option"
  isRead :: bool
  notif_createdAt :: int

record store =
  users :: "User list"
  images :: "Image list"
  friends :: "Friend list"
  groups :: "Group list"
  groupMembers :: "GroupMember list"
  imageShares :: "ImageShare list"
  notifications :: "Notification list"
  sqlite_sequence :: "string \<Rightarrow> int"

section \<open>Query operators\<close>

text \<open>
  The operators of the query builder as they act on one row. \<open>eq\<close> of a nullable column
  with a number is true only on a non-null equal value (\<open>NULL = v\<close> is not true in SQL);
  \<open>inArray\<close> of a nullable column likewise. \<open>limit(1)\<close> keeps the first row and
  \<open>result[0]\<close> reads it, \<open>undefined\<close> (\<open>None\<close>) on an empty result.
\<close>

definition eq_nullable :: "'a option \<Rightarrow> 'a \<Rightarrow> bool" where
  "eq_nullable c v = (case c of None \<Rightarrow> False | Some x \<Rightarrow> x = v)"

definition inArray :: "'a option \<Rightarrow> 'a list \<Rightarrow> bool" where
  "inArray c vs = (case c of None \<Rightarrow> False | Some x \<Rightarrow> x \<in> set vs)"

definition limit :: "nat \<Rightarrow> 'a list \<Rightarrow> 'a list" where
  "limit n rows = take n rows"

definition first_row :: "'a list \<Rightarrow> 'a option" where
  "first_row rows = (case rows of [] \<Rightarrow> None | r # _ \<Rightarrow> Some r)"

section \<open>DatabaseStorage: friendships\<close>

definition getFriendship :: "store \<Rightarrow> int \<Rightarrow> int \<Rightarrow> Friend option" where
  "getFriendship s requester addressee =
     first_row (limit 1 (filter
       (\<lambda>f. (requesterId f = requester \<and> addresseeId f = addressee) \<or>
            (requesterId f = addressee \<and> addresseeId f = requester))
       (friends s)))"

section \<open>DatabaseStorage: image access\<close>

definition userHasImageAccess :: "store \<Rightarrow> int \<Rightarrow> int \<Rightarrow> bool" where
  "userHasImageAccess s userId imageId =
     (let image = limit 1 (filter (\<lambda>r. image_id r = imageId \<and> image_userId r = userId) (images s))
      in if length image > 0 then True
         else
           let directShare = limit 1 (filter
                 (\<lambda>r. share_imageId r = imageId \<and> eq_nullable (share_userId r) userId)
                 (imageShares s))
           in if length directShare > 0 then True
              else
                let userGroups = filter (\<lambda>r. gm_userId r = userId) (groupMembers s);
                    userGroupIds = map gm_groupId userGroups
                in if length userGroupIds = 0 then False
                   else
                     let groupShare = limit 1 (filter
                           (\<lambda>r. share_imageId r = imageId \<and> inArray (share_groupId r) userGroupIds)
                           (imageShares s))
                     in length groupShare > 0)"

section \<open>Errors, constraints and inserts\<close>

text \<open>
  A rejected promise or thrown exception is a value \<open>Error msg\<close>. Operations that can
  throw return \<open>error + 'a\<close>, with \<open>Inl\<close> the error.

  The connection is opened with \<open>PRAGMA foreign_keys = ON\<close> (database.ts) and every
  table declares its references (schema, init-db.ts), so an insert whose reference names
  no row, and a delete of a row that is still referenced, fail with a constraint error
  and change nothing. The engine assigns the id of a new row: one more than the larger
  of the largest id in the table and the table's entry in \<open>sqlite_sequence\<close>, which it
  then sets to the new id. The time that fills the timestamp column of a new row is the
  argument \<open>now\<close>, in seconds since the epoch, the unit of the column.
\<close>

datatype error = Error string

definition fk_error :: error where
  "fk_error = Error ''FOREIGN KEY constraint failed''"

definition next_id :: "int list \<Rightarrow> int \<Rightarrow> int" where
  "next_id ids seq = max (fold max ids 0) seq + 1"

definition references :: "int list \<Rightarrow> int \<Rightarrow> bool" where
  "references ids v = (v \<in> set ids)"

definition references_nullable :: "int list \<Rightarrow> int option \<Rightarrow> bool" where
  "references_nullable ids c = (case c of None \<Rightarrow> True | Some v \<Rightarrow> v \<in> set ids)"

definition createImage :: "store \<Rightarrow> int \<Rightarrow> int \<Rightarrow> string \<Rightarrow> string option \<Rightarrow> error + (Image \<times> store)" where
  "createImage s now userId pth description =
     (if \<not> references (map user_id (users s)) userId then Inl fk_error
      else
        let row = \<lparr>image_id = next_id (map image_id (images s)) (sqlite_sequence s ''images''),
                   image_userId = userId, path = pth, image_description = description,
                   uploadedAt = now\<rparr>
        in Inr (row, s\<lparr>images := images s @ [row],
                       sqlite_sequence := (sqlite_sequence s)(''images'' := image_id row)\<rparr>))"

definition createFriend :: "store \<Rightarrow> int \<Rightarrow> int \<Rightarrow> int \<Rightarrow> error + (Friend \<times> store)" where
  "createFriend s now requester addressee =
     (if \<not> references (map user_id (users s)) requester \<or>
         \<not> references (map user_id (users s)) addressee then Inl fk_error
      else
        let row = \<lparr>friend_id = next_id (map friend_id (friends s)) (sqlite_sequence s ''friends''),
                   requesterId = requester, addresseeId = addressee, status = ''pending'',
                   friend_createdAt = now\<rparr>
        in Inr (row, s\<lparr>friends := friends s @ [row],
                       sqlite_sequence := (sqlite_sequence s)(''friends'' := friend_id row)\<rparr>))"

definition shareImage :: "store \<Rightarrow> int \<Rightarrow> int \<Rightarrow> int option \<Rightarrow> int option \<Rightarrow> error + (ImageShare \<times> store)" where
  "shareImage s now imageId userId groupId =
     (if \<not> references (map image_id (images s)) imageId \<or>
         \<not> references_nullable (map user_id (users s)) userId \<or>
         \<not> references_nullable (map group_id (groups s)) groupId then Inl fk_error
      else
        let row = \<lparr>share_id = next_id (map share_id (imageShares s))
                               (sqlite_sequence s ''image_shares''),
                   share_imageId = imageId, share_userId = userId, share_groupId = groupId,
                   sharedAt = now\<rparr>
        in Inr (row, s\<lparr>imageShares := imageShares s @ [row],
                       sqlite_sequence := (sqlite_sequence s)(''image_shares'' := share_id row)\<rparr>))"

definition createNotification ::
  "store \<Rightarrow> int \<Rightarrow> int \<Rightarrow> string \<Rightarrow> string \<Rightarrow> int option \<Rightarrow> int option \<Rightarrow> int option
     \<Rightarrow> error + (Notification \<times> store)" where
  "createNotification s now userId type cont sender groupId imageId =
     (if \<not> references (map user_id (users s)) userId \<or>
         \<not> references_nullable (map user_id (users s)) sender \<or>
         \<not> references_nullable (map group_id (groups s)) groupId \<or>
         \<not> references_nullable (map image_id (images s)) imageId then Inl fk_error
      else
        let row = \<lparr>notif_id = next_id (map notif_id (notifications s))
                               (sqlite_sequence s ''notifications''),
                   notif_userId = userId, notif_type = type, content = cont, senderId = sender,
                   notif_groupId = groupId, notif_imageId = imageId, isRead = False,
                   notif_createdAt = now\<rparr>
        in Inr (row, s\<lparr>notifications := notifications s @ [row],
                       sqlite_sequence := (sqlite_sequence s)(''notifications'' := notif_id row)\<rparr>))"

section \<open>DatabaseStorage: reads by id\<close>

definition getUser :: "store \<Rightarrow> int \<Rightarrow> User option" where
  "getUser s ident = first_row (limit 1 (filter (\<lambda>r. user_id r = ident) (users s)))"

definition getImage :: "store \<Rightarrow> int \<Rightarrow> Image option" where
  "getImage s ident = first_row (limit 1 (filter (\<lambda>r. image_id r = ident) (images s)))"

definition getGroup :: "store \<Rightarrow> int \<Rightarrow> error + Group" where
  "getGroup s ident =
     (let result = limit 1 (filter (\<lambda>r. group_id r = ident) (groups s))
      in case result of [] \<Rightarrow> Inl (Error ''Group not found'') | r # _ \<Rightarrow> Inr r)"

definition getFriendRequest :: "store \<Rightarrow> int \<Rightarrow> Friend option" where
  "getFriendRequest s ident = first_row (limit 1 (filter (\<lambda>r. friend_id r = ident) (friends s)))"

definition getGroupMembers :: "store \<Rightarrow> int \<Rightarrow> User list" where
  "getGroupMembers s groupId =
     (let memberRecords = filter (\<lambda>r. gm_groupId r = groupId) (groupMembers s);
          userIds = map gm_userId memberRecords
      in if length userIds = 0 then []
         else filter (\<lambda>u. user_id u \<in> set userIds) (users s))"


section \<open>DatabaseStorage: deleteImage\<close>

text \<open>
  The three statements of \<open>deleteImage\<close>, in the order the function issues them. The
  third is the only one that can violate a reference: it fails when a row it would
  delete is still named by a share or a notification.
\<close>

definition delete_shares_of :: "store \<Rightarrow> int \<Rightarrow> store" where
  "delete_shares_of s ident =
     s\<lparr>imageShares := filter (\<lambda>r. \<not> (share_imageId r = ident)) (imageShares s)\<rparr>"

definition delete_notifications_of :: "store \<Rightarrow> int \<Rightarrow> store" where
  "delete_notifications_of s ident =
     s\<lparr>notifications := filter (\<lambda>r. \<not> eq_nullable (notif_imageId r) ident) (notifications s)\<rparr>"

definition delete_image_row :: "store \<Rightarrow> int \<Rightarrow> error + store" where
  "delete_image_row s ident =
     (if ident \<in> set (map image_id (images s)) \<and>
         (ident \<in> set (map share_imageId (imageShares s)) \<or>
          Some ident \<in> set (map notif_imageId (notifications s)))
      then Inl fk_error
      else Inr (s\<lparr>images := filter (\<lambda>r. \<not> (image_id r = ident)) (images s)\<rparr>))"

definition deleteImage :: "store \<Rightarrow> int \<Rightarrow> error + store" where
  "deleteImage s ident =
     delete_image_row (delete_notifications_of (delete_shares_of s ident) ident) ident"

section \<open>DatabaseStorage: getImageWithShares\<close>

text \<open>
  \<open>ImageWithShares\<close> is the image row spread into a new object together with the field
  \<open>shares\<close>: a record extending \<open>Image\<close>. \<open>filter(Boolean)\<close> drops \<open>null\<close> and \<open>0\<close>.

  The operator \<open>ne(column, null)\<close> belongs to the query builder, which is not part of
  the repository; its truth value on a column value is the parameter \<open>ne_null\<close>, so that
  what is proved below holds whether it reads as \<open>IS NOT NULL\<close> or as the SQL comparison
  \<open><> NULL\<close>, which no row satisfies.
\<close>

record Shares =
  shares_users :: "User list"
  shares_groups :: "Group list"

record ImageWithShares = Image +
  shares :: Shares

definition filter_Boolean :: "int option list \<Rightarrow> int list" where
  "filter_Boolean vs = concat (map (\<lambda>v. case v of None \<Rightarrow> [] | Some x \<Rightarrow> if x = 0 then [] else [x]) vs)"

definition getImageWithShares :: "(int option \<Rightarrow> bool) \<Rightarrow> store \<Rightarrow> int \<Rightarrow> ImageWithShares option" where
  "getImageWithShares ne_null s imageId =
     (case getImage s imageId of
        None \<Rightarrow> None
      | Some img \<Rightarrow>
          let userShares = map share_userId (filter
                (\<lambda>r. share_imageId r = imageId \<and> ne_null (share_userId r)) (imageShares s));
              userIds = filter_Boolean userShares;
              groupShares = map share_groupId (filter
                (\<lambda>r. share_imageId r = imageId \<and> ne_null (share_groupId r)) (imageShares s));
              groupIds = filter_Boolean groupShares;
              sharedUsers = (if length userIds \<noteq> 0
                             then filter (\<lambda>u. user_id u \<in> set userIds) (users s) else []);
              sharedGroups = (if length groupIds \<noteq> 0
                              then filter (\<lambda>g. group_id g \<in> set groupIds) (groups s) else [])
          in Some (Image.extend img
                \<lparr>shares = \<lparr>shares_users = sharedUsers, shares_groups = sharedGroups\<rparr>\<rparr>))"

section \<open>DatabaseStorage: getUserNotifications\<close>

text \<open>
  \<open>NotificationWithDetails\<close> is the notification row spread into a new object, with the
  optional fields \<open>sender\<close>, \<open>group\<close> and \<open>image\<close>; an omitted field and a field set to
  \<open>undefined\<close> are both \<open>None\<close>. A nullable id is truthy when it is neither \<open>null\<close> nor
  \<open>0\<close>. \<open>orderBy(desc(column))\<close> on an integer column is a sort on the negated key; the
  engine does not fix the order of rows with equal keys, and nothing below depends on it.
  \<open>promise.catch(() => undefined)\<close> turns a rejection into \<open>undefined\<close>, and
  \<open>Promise.all\<close> over the mapped callbacks rejects with the first rejection.
\<close>

record NotificationWithDetails = Notification +
  details_sender :: "User option"
  details_group :: "Group option"
  details_image :: "Image option"

definition truthy :: "int option \<Rightarrow> bool" where
  "truthy c = (case c of None \<Rightarrow> False | Some v \<Rightarrow> v \<noteq> 0)"

definition orderBy_desc :: "('a \<Rightarrow> int) \<Rightarrow> 'a list \<Rightarrow> 'a list" where
  "orderBy_desc key rows = sort_key (\<lambda>r. - key r) rows"

definition catch_undefined :: "error + 'a \<Rightarrow> error + 'a option" where
  "catch_undefined p = (case p of Inl _ \<Rightarrow> Inr None | Inr v \<Rightarrow> Inr (Some v))"

definition await :: "error + 'a \<Rightarrow> ('a \<Rightarrow> error + 'b) \<Rightarrow> error + 'b" where
  "await p k = (case p of Inl e \<Rightarrow> Inl e | Inr v \<Rightarrow> k v)"

fun Promise_all :: "(error + 'a) list \<Rightarrow> error + 'a list" where
  "Promise_all [] = Inr []"
| "Promise_all (p # ps) =
     (case p of
        Inl e \<Rightarrow> Inl e
      | Inr v \<Rightarrow> (case Promise_all ps of Inl e \<Rightarrow> Inl e | Inr vs \<Rightarrow> Inr (v # vs)))"

definition notification_details :: "store \<Rightarrow> Notification \<Rightarrow> error + NotificationWithDetails" where
  "notification_details s notification =
     await (if truthy (senderId notification)
            then Inr (getUser s (the (senderId notification))) else Inr None)
       (\<lambda>sender.
     await (if truthy (notif_groupId notification)
            then catch_undefined (getGroup s (the (notif_groupId notification))) else Inr None)
       (\<lambda>grp.
     await (if truthy (notif_imageId notification)
            then Inr (getImage s (the (notif_imageId notification))) else Inr None)
       (\<lambda>img.
     Inr (Notification.extend notification
            \<lparr>details_sender = sender, details_group = grp, details_image = img\<rparr>))))"

definition getUserNotifications :: "store \<Rightarrow> int \<Rightarrow> error + NotificationWithDetails list" where
  "getUserNotifications s userId =
     (let notificationsList = orderBy_desc notif_createdAt
            (filter (\<lambda>r. notif_userId r = userId) (notifications s))
      in Promise_all (map (notification_details s) notificationsList))"

section \<open>DatabaseStorage: updateFriendRequest\<close>

definition updateFriendRequest :: "store \<Rightarrow> int \<Rightarrow> string \<Rightarrow> Friend option \<times> store" where
  "updateFriendRequest s ident st =
     (let rows = map (\<lambda>f. if friend_id f = ident then f\<lparr>status := st\<rparr> else f) (friends s);
          result = filter (\<lambda>f. friend_id f = ident) rows
      in (first_row result, s\<lparr>friends := rows\<rparr>))"

section \<open>Request handlers\<close>

text \<open>
  A handler takes the store, the time, the session user (\<open>None\<close> when the request is
  not authenticated, which \<open>isAuthenticated\<close> answers with 401) and the parsed request
  fields, and returns the response status with the store it leaves. An exception inside
  the \<open>try\<close> block is answered with 500; the statements already executed stay in
  effect, since the handlers open no transaction. Ids in the path and the body are
  passed through \<open>parseInt\<close> by the handlers; the arguments here are the integers so
  obtained.
\<close>

definition postFriendRequest :: "store \<Rightarrow> int \<Rightarrow> User option \<Rightarrow> int \<Rightarrow> nat \<times> store" where
  "postFriendRequest s now reqUser addressee =
     (case reqUser of
        None \<Rightarrow> (401, s)
      | Some user \<Rightarrow>
          let requester = user_id user in
          if requester = addressee then (400, s)
          else
            (case getFriendship s requester addressee of
               Some existingFriend \<Rightarrow> (400, s)
             | None \<Rightarrow>
                 (case createFriend s now requester addressee of
                    Inl e \<Rightarrow> (500, s)
                  | Inr (friend, s1) \<Rightarrow>
                      (case createNotification s1 now addressee ''friend_request''
                              (username user @ '' sent you a friend request'')
                              (Some requester) None None of
                         Inl e \<Rightarrow> (500, s1)
                       | Inr (n, s2) \<Rightarrow> (201, s2)))))"

definition putFriendRequest :: "store \<Rightarrow> int \<Rightarrow> User option \<Rightarrow> int \<Rightarrow> string \<Rightarrow> nat \<times> store" where
  "putFriendRequest s now reqUser requestId st =
     (case reqUser of
        None \<Rightarrow> (401, s)
      | Some user \<Rightarrow>
          if st \<noteq> ''accepted'' \<and> st \<noteq> ''declined'' then (400, s)
          else
            (case getFriendRequest s requestId of
               None \<Rightarrow> (404, s)
             | Some request \<Rightarrow>
                 if addresseeId request \<noteq> user_id user then (403, s)
                 else
                   (case updateFriendRequest s requestId st of
                      (updatedRequest, s1) \<Rightarrow>
                        (case createNotification s1 now (requesterId request) ''friend_request''
                                (if st = ''accepted''
                                 then username user @ '' accepted your friend request''
                                 else username user @ '' declined your friend request'')
                                (Some (user_id user)) None None of
                           Inl e \<Rightarrow> (500, s1)
                         | Inr (n, s2) \<Rightarrow> (200, s2)))))"

text \<open>
  The upload handler. The loops over \<open>userIds\<close> and \<open>groupIds\<close> are recursive functions
  that stop at the first exception and hand back the store reached. The form fields
  \<open>userIds\<close> and \<open>groupIds\<close> are the lists their JSON text parses to, \<open>None\<close> when the
  field is absent, and \<open>field_list\<close> reads such a field as the handler does: the parsed
  list, or the empty list for an absent field. \<open>file\<close> is the stored file's name, \<open>None\<close>
  when no file was sent.
\<close>

fun shareWithUsers :: "store \<Rightarrow> int \<Rightarrow> User \<Rightarrow> Image \<Rightarrow> int list \<Rightarrow> (error \<times> store) + store" where
  "shareWithUsers s now user img [] = Inr s"
| "shareWithUsers s now user img (userId # userIds) =
     (case shareImage s now (image_id img) (Some userId) None of
        Inl e \<Rightarrow> Inl (e, s)
      | Inr (sh, s1) \<Rightarrow>
          (case createNotification s1 now userId ''image_share''
                  (username user @ '' shared an image with you'')
                  (Some (user_id user)) None (Some (image_id img)) of
             Inl e \<Rightarrow> Inl (e, s1)
           | Inr (n, s2) \<Rightarrow> shareWithUsers s2 now user img userIds))"

fun notifyMembers ::
  "store \<Rightarrow> int \<Rightarrow> User \<Rightarrow> Image \<Rightarrow> Group \<Rightarrow> int \<Rightarrow> User list \<Rightarrow> (error \<times> store) + store" where
  "notifyMembers s now user img grp groupId [] = Inr s"
| "notifyMembers s now user img grp groupId (member # members) =
     (if user_id member \<noteq> user_id user
      then (case createNotification s now (user_id member) ''image_share''
                    (username user @ '' shared an image in '' @ group_name grp)
                    (Some (user_id user)) (Some groupId) (Some (image_id img)) of
              Inl e \<Rightarrow> Inl (e, s)
            | Inr (n, s1) \<Rightarrow> notifyMembers s1 now user img grp groupId members)
      else notifyMembers s now user img grp groupId members)"

fun shareWithGroups :: "store \<Rightarrow> int \<Rightarrow> User \<Rightarrow> Image \<Rightarrow> int list \<Rightarrow> (error \<times> store) + store" where
  "shareWithGroups s now user img [] = Inr s"
| "shareWithGroups s now user img (groupId # groupIds) =
     (case shareImage s now (image_id img) None (Some groupId) of
        Inl e \<Rightarrow> Inl (e, s)
      | Inr (sh, s1) \<Rightarrow>
          let members = getGroupMembers s1 groupId in
          (case getGroup s1 groupId of
             Inl e \<Rightarrow> Inl (e, s1)
           | Inr grp \<Rightarrow>
               (case notifyMembers s1 now user img grp groupId members of
                  Inl es \<Rightarrow> Inl es
                | Inr s2 \<Rightarrow> shareWithGroups s2 now user img groupIds)))"

definition field_list :: "int list option \<Rightarrow> int list" where
  "field_list f = (case f of Some ids \<Rightarrow> ids | None \<Rightarrow> [])"

definition postImages ::
  "store \<Rightarrow> int \<Rightarrow> User option \<Rightarrow> string option \<Rightarrow> string option \<Rightarrow> int list option \<Rightarrow> int list option
     \<Rightarrow> nat \<times> store" where
  "postImages s now reqUser file description userIdsField groupIdsField =
     (case reqUser of
        None \<Rightarrow> (401, s)
      | Some user \<Rightarrow>
          (case file of
             None \<Rightarrow> (400, s)
           | Some filename \<Rightarrow>
               (case createImage s now (user_id user) (''/uploads/'' @ filename)
                       (Some (case description of None \<Rightarrow> [] | Some d \<Rightarrow> d)) of
                  Inl e \<Rightarrow> (500, s)
                | Inr (img, s1) \<Rightarrow>
                    if userIdsField \<noteq> None \<or> groupIdsField \<noteq> None
                    then
                      let userIds = field_list userIdsField;
                          groupIds = field_list groupIdsField
                      in (case shareWithUsers s1 now user img userIds of
                            Inl (e, s2) \<Rightarrow> (500, s2)
                          | Inr s2 \<Rightarrow>
                              (case shareWithGroups s2 now user img groupIds of
                                 Inl (e, s3) \<Rightarrow> (500, s3)
                               | Inr s3 \<Rightarrow> (201, s3)))
                    else (201, s1))))"

section \<open>DatabaseStorage: getUserImageDates\<close>

text \<open>
  The query formats the upload time of every image of the user with the engine's
  \<open>strftime\<close>, groups the rows by the text \<open>YYYY-MM\<close>, orders the groups by that text,
  descending, and the result is mapped through \<open>parseInt\<close>, the month less one.

  The query divides the stored column by 1000 before it hands it to \<open>datetime(...,
  'unixepoch')\<close>, which reads its argument as seconds; on integers the engine's division
  truncates toward zero (\<open>sdiv\<close>).
  The engine's calendar is not part of the repository: \<open>cal t\<close> is the year and the
  month number, 1 to 12, that the engine gives the instant \<open>t\<close> seconds after the epoch.
  \<open>%Y\<close> prints the year zero-padded to four digits, \<open>%m\<close> the month zero-padded to two.
  Texts are compared byte by byte, which is the linear order on strings. The selected
  year and month of a group are taken from one of its rows, here the first.

  \<open>parseInt\<close> skips leading (ASCII) white space, reads an optional sign and an optional \<open>0x\<close>,
  and takes the value of the longest run of digits that follows; \<open>None\<close> is \<open>NaN\<close>, and
  \<open>NaN - 1\<close> is \<open>NaN\<close>.
\<close>

definition digit_char :: "nat \<Rightarrow> char" where
  "digit_char d = char_of (48 + d)"

fun digits :: "nat \<Rightarrow> nat list" where
  "digits n = (if n < 10 then [n] else digits (n div 10) @ [n mod 10])"

declare digits.simps [simp del]

definition zero_pad :: "nat \<Rightarrow> nat list \<Rightarrow> nat list" where
  "zero_pad w ds = replicate (w - length ds) 0 @ ds"

definition format_0d :: "nat \<Rightarrow> nat \<Rightarrow> string" where
  "format_0d w n = map digit_char (zero_pad w (digits n))"

definition strftime_Y :: "nat \<times> nat \<Rightarrow> string" where
  "strftime_Y d = format_0d 4 (fst d)"

definition strftime_m :: "nat \<times> nat \<Rightarrow> string" where
  "strftime_m d = format_0d 2 (snd d)"

definition strftime_Y_m :: "nat \<times> nat \<Rightarrow> string" where
  "strftime_Y_m d = strftime_Y d @ ''-'' @ strftime_m d"

definition is_space :: "char \<Rightarrow> bool" where
  "is_space c = (c \<in> set [CHR '' '', CHR 0x09, CHR 0x0A, CHR 0x0B, CHR 0x0C, CHR 0x0D])"

definition char_digit :: "char \<Rightarrow> nat option" where
  "char_digit c =
     (let k = (of_char c :: nat)
      in if 48 \<le> k \<and> k \<le> 57 then Some (k - 48)
         else if 97 \<le> k \<and> k \<le> 122 then Some (k - 87)
         else if 65 \<le> k \<and> k \<le> 90 then Some (k - 55)
         else None)"

definition is_radix_digit :: "nat \<Rightarrow> char \<Rightarrow> bool" where
  "is_radix_digit radix c = (case char_digit c of None \<Rightarrow> False | Some d \<Rightarrow> d < radix)"

definition digits_value :: "nat \<Rightarrow> nat list \<Rightarrow> nat" where
  "digits_value radix ds = foldl (\<lambda>a d. a * radix + d) 0 ds"

definition parseInt :: "string \<Rightarrow> int option" where
  "parseInt str =
     (let s1 = dropWhile is_space str;
          sign = (case s1 of c # cs \<Rightarrow> if c = CHR ''-'' then - 1 else 1 | [] \<Rightarrow> (1::int));
          s2 = (case s1 of c # cs \<Rightarrow> if c = CHR ''-'' \<or> c = CHR ''+'' then cs else s1 | [] \<Rightarrow> s1);
          hex = (case s2 of a # b # cs \<Rightarrow> a = CHR ''0'' \<and> (b = CHR ''x'' \<or> b = CHR ''X'') | _ \<Rightarrow> False);
          radix = (if hex then 16 else 10);
          s3 = (if hex then drop 2 s2 else s2);
          ds = takeWhile (is_radix_digit radix) s3
      in if ds = [] then None
         else Some (sign * int (digits_value radix (map (\<lambda>c. the (char_digit c)) ds))))"

record YearMonth =
  year :: "int option"
  month :: "int option"

definition getUserImageDates :: "(int \<Rightarrow> nat \<times> nat) \<Rightarrow> store \<Rightarrow> int \<Rightarrow> YearMonth list" where
  "getUserImageDates cal s userId =
     (let rows = filter (\<lambda>r. image_userId r = userId) (images s);
          selected = map (\<lambda>r. let d = cal (uploadedAt r sdiv 1000)
                              in (strftime_Y_m d, (strftime_Y d, strftime_m d))) rows;
          groupKeys = rev (sort (remdups (map fst selected)));
          results = List.map_filter (map_of selected) groupKeys
      in map (\<lambda>(y, m). \<lparr>year = parseInt y, month = map_option (\<lambda>v. v - 1) (parseInt m)\<rparr>) results)"

section \<open>DatabaseStorage: getUserImagesByDate\<close>

text \<open>
  \<open>new Date(year, month, date, hours, minutes, seconds, ms).getTime()\<close> follows the
  language definition: years 0 to 99 are taken as 1900 to 1999, \<open>MakeDay\<close> normalises
  the month into a year and a month 0 to 11 and counts days from the first of that
  month, \<open>MakeDate\<close> and \<open>MakeTime\<close> give the local time in milliseconds, and the zone
  offset at that local time is subtracted. The calendar and the zone of the runtime are
  not part of the repository: \<open>monthStartDay y m\<close> is the day number, counted from the
  epoch, of the first day of month \<open>m\<close> (0 to 11) of year \<open>y\<close>, and \<open>localTZA t\<close> is the
  zone offset in milliseconds at local time \<open>t\<close>. The clipping of time values beyond
  8.64e15 milliseconds is left out: such values lie far outside the engine's range of
  years.

  \<open>getTime() / 1000\<close> is a division of numbers, not of integers. \<open>datetime(x,
  'unixepoch')\<close> is the text \<open>YYYY-MM-DD HH:MM:SS\<close> of the instant \<open>x\<close> seconds after the
  epoch, rounded to the millisecond and cut to the second. Within the engine's range of
  years two such texts compare as their seconds do, so the text is represented by that
  second.
\<close>

definition MakeTime :: "int \<Rightarrow> int \<Rightarrow> int \<Rightarrow> int \<Rightarrow> int" where
  "MakeTime hour minute sec ms = hour * 3600000 + minute * 60000 + sec * 1000 + ms"

definition MakeDay :: "(int \<Rightarrow> int \<Rightarrow> int) \<Rightarrow> int \<Rightarrow> int \<Rightarrow> int \<Rightarrow> int" where
  "MakeDay monthStartDay yr mon dt = monthStartDay (yr + mon div 12) (mon mod 12) + dt - 1"

definition MakeDate :: "int \<Rightarrow> int \<Rightarrow> int" where
  "MakeDate day time = day * 86400000 + time"

definition new_Date ::
  "(int \<Rightarrow> int \<Rightarrow> int) \<Rightarrow> (int \<Rightarrow> int) \<Rightarrow> int \<Rightarrow> int \<Rightarrow> int \<Rightarrow> int \<Rightarrow> int \<Rightarrow> int \<Rightarrow> int \<Rightarrow> int" where
  "new_Date monthStartDay localTZA y m dt h mi sec ms =
     (let yr = (if 0 \<le> y \<and> y \<le> 99 then 1900 + y else y);
          t = MakeDate (MakeDay monthStartDay yr m dt) (MakeTime h mi sec ms)
      in t - localTZA t)"

definition datetime_unixepoch :: "real \<Rightarrow> int" where
  "datetime_unixepoch x = \<lfloor>x * 1000 + 1 / 2\<rfloor> div 1000"

definition getUserImagesByDate ::
  "(int \<Rightarrow> int \<Rightarrow> int) \<Rightarrow> (int \<Rightarrow> int) \<Rightarrow> store \<Rightarrow> int \<Rightarrow> int \<Rightarrow> int \<Rightarrow> Image list" where
  "getUserImagesByDate monthStartDay localTZA s userId y m =
     (let monthStart = new_Date monthStartDay localTZA y m 1 0 0 0 0;
          monthEnd = new_Date monthStartDay localTZA y (m + 1) 0 23 59 59 999
      in orderBy_desc uploadedAt (filter
           (\<lambda>r. image_userId r = userId \<and>
                datetime_unixepoch (of_int (uploadedAt r sdiv 1000))
                  \<ge> datetime_unixepoch (of_int monthStart / 1000) \<and>
                datetime_unixepoch (of_int (uploadedAt r sdiv 1000))
                  \<le> datetime_unixepoch (of_int monthEnd / 1000))
           (images s)))"

section \<open>Notions used to state the claims\<close>

text \<open>
  \<open>pair_row a b\<close> holds of a friendship row that links the unordered pair of users
  \<open>a\<close>, \<open>b\<close>. \<open>responds\<close> is the condition under which the respond handler reaches its
  update: an authenticated caller, a status of \<open>accepted\<close> or \<open>declined\<close>, and an existing
  request whose addressee is the caller.
\<close>

definition pair_row :: "int \<Rightarrow> int \<Rightarrow> Friend \<Rightarrow> bool" where
  "pair_row a b f = ((requesterId f = a \<and> addresseeId f = b) \<or> (requesterId f = b \<and> addresseeId f = a))"

definition responds :: "store \<Rightarrow> User option \<Rightarrow> int \<Rightarrow> string \<Rightarrow> bool" where
  "responds s reqUser requestId st =
     (case reqUser of None \<Rightarrow> False
      | Some user \<Rightarrow> (st = ''accepted'' \<or> st = ''declined'') \<and>
          (case getFriendRequest s requestId of None \<Rightarrow> False
           | Some request \<Rightarrow> addresseeId request = user_id user))"









text \<open>
  What the callback of \<open>getUserNotifications\<close> builds for one notification, written
  without the promise plumbing; \<open>notification_details\<close> is shown below to return it.
\<close>

definition attach :: "store \<Rightarrow> Notification \<Rightarrow> NotificationWithDetails" where
  "attach s n = Notification.extend n
     \<lparr>details_sender = (if truthy (senderId n) then getUser s (the (senderId n)) else None),
      details_group = (if truthy (notif_groupId n)
                       then (case getGroup s (the (notif_groupId n)) of
                               Inl _ \<Rightarrow> None | Inr g \<Rightarrow> Some g)
                       else None),
      details_image = (if truthy (notif_imageId n)
                       then getImage s (the (notif_imageId n)) else None)\<rparr>"

text \<open>
  The column \<open>uploaded_at\<close> holds seconds, so the month in which an image was uploaded
  is the year and month the calendar gives that second (\<open>image_date\<close>), and the instant
  of the upload as a JavaScript time value, in milliseconds, is \<open>upload_instant\<close>. The
  first instant of month \<open>m\<close> of year \<open>y\<close> is the time value of \<open>new Date(y, m, 1)\<close>.
\<close>

definition image_date :: "(int \<Rightarrow> nat \<times> nat) \<Rightarrow> Image \<Rightarrow> nat \<times> nat" where
  "image_date cal r = cal (uploadedAt r)"

definition upload_instant :: "Image \<Rightarrow> int" where
  "upload_instant r = uploadedAt r * 1000"

definition month_first_instant :: "(int \<Rightarrow> int \<Rightarrow> int) \<Rightarrow> (int \<Rightarrow> int) \<Rightarrow> int \<Rightarrow> int \<Rightarrow> int" where
  "month_first_instant monthStartDay localTZA y m = new_Date monthStartDay localTZA y m 1 0 0 0 0"

section \<open>Example stores\<close>

text \<open>
  Small stores on which the operations are evaluated below. Times are seconds since the
  epoch; 1700000000 is 14 November 2023 and 1701500000 is 2 December 2023.
\<close>

definition alice :: User where
  "alice = \<lparr>user_id = 1, username = ''alice'', password = ''h1'', user_createdAt = 1690000000\<rparr>"

definition bob :: User where
  "bob = \<lparr>user_id = 2, username = ''bob'', password = ''h2'', user_createdAt = 1690000100\<rparr>"

definition carol :: User where
  "carol = \<lparr>user_id = 3, username = ''carol'', password = ''h3'', user_createdAt = 1690000200\<rparr>"

definition picture1 :: Image where
  "picture1 = \<lparr>image_id = 1, image_userId = 1, path = ''/uploads/p1.png'',
                image_description = Some [], uploadedAt = 1700000000\<rparr>"

definition picture2 :: Image where
  "picture2 = \<lparr>image_id = 2, image_userId = 1, path = ''/uploads/p2.png'',
                image_description = Some [], uploadedAt = 1701500000\<rparr>"

definition family :: Group where
  "family = \<lparr>group_id = 1, group_name = ''family'', group_description = None, createdBy = 1,
              group_createdAt = 1690001000\<rparr>"

definition store_shared :: store where
  "store_shared =
     \<lparr>users = [alice, bob, carol],
      images = [picture1, picture2],
      friends = [],
      groups = [family],
      groupMembers =
        [\<lparr>gm_id = 1, gm_groupId = 1, gm_userId = 1, joinedAt = 1690001000\<rparr>,
         \<lparr>gm_id = 2, gm_groupId = 1, gm_userId = 2, joinedAt = 1690001100\<rparr>,
         \<lparr>gm_id = 3, gm_groupId = 1, gm_userId = 3, joinedAt = 1690001200\<rparr>],
      imageShares =
        [\<lparr>share_id = 1, share_imageId = 1, share_userId = Some 2, share_groupId = None,
          sharedAt = 1700000000\<rparr>],
      notifications =
        [\<lparr>notif_id = 1, notif_userId = 2, notif_type = ''image_share'',
          content = ''alice shared an image with you'', senderId = Some 1,
          notif_groupId = None, notif_imageId = Some 1, isRead = False,
          notif_createdAt = 1700000000\<rparr>],
      sqlite_sequence = (\<lambda>_. 0)(''users'' := 3, ''images'' := 2, ''groups'' := 1,
        ''group_members'' := 3, ''image_shares'' := 1, ''notifications'' := 1)\<rparr>"

text \<open>
  A store with four notifications, three of them for alice. The first names a sender, a
  group and an image that have no row; the second names bob and the first picture, which
  exist, and a group that has no row; the third names only the group \<open>family\<close>, which
  exists.
\<close>

definition notification_dangling :: Notification where
  "notification_dangling =
     \<lparr>notif_id = 1, notif_userId = 1, notif_type = ''image_share'', content = ''shared'',
      senderId = Some 7, notif_groupId = Some 8, notif_imageId = Some 9, isRead = False,
      notif_createdAt = 1700000130\<rparr>"

definition notification_mixed :: Notification where
  "notification_mixed =
     \<lparr>notif_id = 2, notif_userId = 1, notif_type = ''image_share'',
      content = ''bob shared an image in travel'', senderId = Some 2, notif_groupId = Some 8,
      notif_imageId = Some 1, isRead = False, notif_createdAt = 1700000140\<rparr>"

definition notification_group :: Notification where
  "notification_group =
     \<lparr>notif_id = 3, notif_userId = 1, notif_type = ''group_invite'',
      content = ''You were added to family'', senderId = None, notif_groupId = Some 1,
      notif_imageId = None, isRead = True, notif_createdAt = 1700000120\<rparr>"

definition store_notified :: store where
  "store_notified =
     \<lparr>users = [alice, bob], images = [picture1], friends = [], groups = [family],
      groupMembers = [], imageShares = [],
      notifications =
        [notification_dangling, notification_mixed, notification_group,
         \<lparr>notif_id = 4, notif_userId = 2, notif_type = ''friend_request'',
          content = ''alice sent you a friend request'', senderId = Some 1,
          notif_groupId = None, notif_imageId = None, isRead = False,
          notif_createdAt = 1700000150\<rparr>],
      sqlite_sequence = (\<lambda>_. 0)(''users'' := 7, ''images'' := 9, ''groups'' := 8,
        ''notifications'' := 4)\<rparr>"

text \<open>
  A store in which alice owns three images: the first shared with bob, the second
  shared with nobody, the third shared with the group, whose members are alice and
  carol.
\<close>

definition store_access :: store where
  "store_access =
     \<lparr>users = [alice, bob, carol],
      images = [picture1, picture2,
                \<lparr>image_id = 3, image_userId = 1, path = ''/uploads/p3.png'',
                  image_description = Some [], uploadedAt = 1701600000\<rparr>],
      friends = [],
      groups = [family],
      groupMembers =
        [\<lparr>gm_id = 1, gm_groupId = 1, gm_userId = 1, joinedAt = 1690001000\<rparr>,
         \<lparr>gm_id = 2, gm_groupId = 1, gm_userId = 3, joinedAt = 1690001200\<rparr>],
      imageShares =
        [\<lparr>share_id = 1, share_imageId = 1, share_userId = Some 2, share_groupId = None,
          sharedAt = 1700000000\<rparr>,
         \<lparr>share_id = 2, share_imageId = 3, share_userId = None, share_groupId = Some 1,
          sharedAt = 1701600000\<rparr>],
      notifications = [],
      sqlite_sequence = (\<lambda>_. 0)(''users'' := 3, ''images'' := 3, ''groups'' := 1,
        ''group_members'' := 2, ''image_shares'' := 2)\<rparr>"

text \<open>
  A store in which bob has accepted alice's friend request. It holds no image and no
  notification any more: one image and two notifications were deleted, and their ids
  are not given again.
\<close>

definition store_friends :: store where
  "store_friends = \<lparr>users = [alice, bob, carol], images = [],
     friends = [\<lparr>friend_id = 1, requesterId = 1, addresseeId = 2, status = ''accepted'',
                 friend_createdAt = 1690002000\<rparr>],
     groups = [], groupMembers = [], imageShares = [], notifications = [],
     sqlite_sequence = (\<lambda>_. 0)(''users'' := 3, ''images'' := 1, ''friends'' := 1,
       ''notifications'' := 2)\<rparr>"

text \<open>
  A store with two friendship rows: bob's request to alice, accepted, and alice's
  request to carol, pending.
\<close>

definition request_bob_alice :: Friend where
  "request_bob_alice = \<lparr>friend_id = 1, requesterId = 2, addresseeId = 1, status = ''accepted'',
                          friend_createdAt = 1690002000\<rparr>"

definition request_alice_carol :: Friend where
  "request_alice_carol = \<lparr>friend_id = 2, requesterId = 1, addresseeId = 3, status = ''pending'',
                            friend_createdAt = 1690003000\<rparr>"

definition store_requests :: store where
  "store_requests = \<lparr>users = [alice, bob, carol], images = [],
     friends = [request_bob_alice, request_alice_carol],
     groups = [], groupMembers = [], imageShares = [], notifications = [],
     sqlite_sequence = (\<lambda>_. 0)(''users'' := 3, ''friends'' := 2)\<rparr>"

text \<open>
  The store that the upload handler leaves when alice uploads a file, shared with
  nobody, on 14 November 2023 at 22:13:20 UTC.
\<close>

definition store_uploaded :: store where
  "store_uploaded =
     snd (postImages store_friends 1700000000 (Some alice) (Some ''a.png'') None None None)"

text \<open>
  The calendar at the instants the examples use, in UTC: the year and month of a second
  in January 1970 and from November 2023 to January 2024, and the day numbers of the
  first days of the months around them. Elsewhere the values play no part.
\<close>

definition calendar_utc :: "int \<Rightarrow> nat \<times> nat" where
  "calendar_utc t =
     (if t < 2678400 then (1970, 1)
      else if t < 1701388800 then (2023, 11)
      else if t < 1704067200 then (2023, 12) else (2024, 1))"

definition month_start_utc :: "int \<Rightarrow> int \<Rightarrow> int" where
  "month_start_utc y m =
     (if y = 1970 \<and> m = 0 then 0
      else if y = 1970 \<and> m = 1 then 31
      else if y = 2023 \<and> m = 10 then 19662
      else if y = 2023 \<and> m = 11 then 19692
      else if y = 2024 \<and> m = 0 then 19723
      else 19754)"

definition utc :: "int \<Rightarrow> int" where
  "utc t = 0"

section \<open>Basic facts about the query operators\<close>

lemma limit_one_nonempty: "(length (limit 1 rows) > 0) = (rows \<noteq> [])"
  by (cases rows) (simp_all add: limit_def)

lemma first_row_limit_one: "first_row (limit 1 rows) = first_row rows"
  by (cases rows) (simp_all add: limit_def first_row_def)

lemma eq_nullable_Some: "eq_nullable c v = (c = Some v)"
  by (cases c) (auto simp: eq_nullable_def)

lemma inArray_iff: "inArray c vs = (\<exists>x \<in> set vs. c = Some x)"
  by (cases c) (auto simp: inArray_def)

lemma filter_nonempty_iff: "(filter P rows \<noteq> []) = (\<exists>r \<in> set rows. P r)"
  by (simp add: filter_empty_conv)

lemma getUser_first: "getUser s i = first_row (filter (\<lambda>r. user_id r = i) (users s))"
  unfolding getUser_def by (rule first_row_limit_one)

lemma getImage_first: "getImage s i = first_row (filter (\<lambda>r. image_id r = i) (images s))"
  unfolding getImage_def by (rule first_row_limit_one)

lemma first_row_filter_None:
  "(first_row (filter P rows) = None) = (\<forall>r \<in> set rows. \<not> P r)"
proof -
  have "(first_row (filter P rows) = None) = (filter P rows = [])"
    by (cases "filter P rows") (simp_all add: first_row_def)
  then show ?thesis by (simp add: filter_empty_conv)
qed


lemma first_row_filter_find: "first_row (filter P rows) = find P rows"
  by (induction rows) (simp_all add: first_row_def)

lemma getGroup_find:
  "(case getGroup s i of Inl e \<Rightarrow> None | Inr g \<Rightarrow> Some g) = find (\<lambda>r. group_id r = i) (groups s)"
proof -
  have "(case getGroup s i of Inl e \<Rightarrow> None | Inr g \<Rightarrow> Some g) =
        first_row (filter (\<lambda>r. group_id r = i) (groups s))"
    by (cases "filter (\<lambda>r. group_id r = i) (groups s)")
       (simp_all add: getGroup_def limit_def first_row_def)
  then show ?thesis by (simp add: first_row_filter_find)
qed

section \<open>The notification callback\<close>

lemma notification_details_attach: "notification_details s n = Inr (attach s n)"
  by (simp add: notification_details_def attach_def await_def catch_undefined_def split: sum.splits)

lemma Promise_all_map_Inr: "Promise_all (map (\<lambda>x. Inr (f x)) xs) = Inr (map f xs)"
  by (induction xs) simp_all

lemma getUserNotifications_eq:
  "getUserNotifications s u =
     Inr (map (attach s) (orderBy_desc notif_createdAt
            (filter (\<lambda>r. notif_userId r = u) (notifications s))))"
proof -
  have "notification_details s = (\<lambda>n. Inr (attach s n))"
    by (rule ext) (rule notification_details_attach)
  then show ?thesis
    by (simp add: getUserNotifications_def Promise_all_map_Inr)
qed

lemma attach_truncate: "Notification.truncate (attach s n) = n"
  by (simp add: attach_def Notification.truncate_def Notification.extend_def)

lemma attach_fields:
  "senderId (attach s n) = senderId n"
  "notif_groupId (attach s n) = notif_groupId n"
  "notif_imageId (attach s n) = notif_imageId n"
  by (simp_all add: attach_def Notification.extend_def)

lemma attach_sender:
  "details_sender (attach s n) =
     (case senderId n of None \<Rightarrow> None
      | Some i \<Rightarrow> if i = 0 then None else find (\<lambda>r. user_id r = i) (users s))"
  by (cases "senderId n")
     (simp_all add: attach_def Notification.extend_def truthy_def getUser_first first_row_filter_find)

lemma attach_group:
  "details_group (attach s n) =
     (case notif_groupId n of None \<Rightarrow> None
      | Some i \<Rightarrow> if i = 0 then None else find (\<lambda>r. group_id r = i) (groups s))"
  by (cases "notif_groupId n")
     (simp_all add: attach_def Notification.extend_def truthy_def getGroup_find)

lemma attach_image:
  "details_image (attach s n) =
     (case notif_imageId n of None \<Rightarrow> None
      | Some i \<Rightarrow> if i = 0 then None else find (\<lambda>r. image_id r = i) (images s))"
  by (cases "notif_imageId n")
     (simp_all add: attach_def Notification.extend_def truthy_def getImage_first first_row_filter_find)

lemma find_key_present:
  assumes "i \<in> set (map key rows)"
  shows "\<exists>r \<in> set rows. key r = i \<and> find (\<lambda>r. key r = i) rows = Some r"
proof -
  from assms have "find (\<lambda>r. key r = i) rows \<noteq> None"
    by (auto simp: find_None_iff)
  then obtain r where r: "find (\<lambda>r. key r = i) rows = Some r" by blast
  then have "r \<in> set rows \<and> key r = i"
    by (auto simp: find_Some_iff)
  with r show ?thesis by blast
qed

lemma find_key_absent: "i \<notin> set (map key rows) \<Longrightarrow> find (\<lambda>r. key r = i) rows = None"
  by (auto simp: find_None_iff)

lemma lookup_cases:
  assumes "x = (case c of None \<Rightarrow> None
                | Some i \<Rightarrow> if i = 0 then None else find (\<lambda>r. key r = i) rows)"
  shows "\<forall>r. x = Some r \<longrightarrow> c = Some (key r) \<and> r \<in> set rows"
    and "\<forall>i. c = Some i \<and> i \<noteq> 0 \<and> i \<in> set (map key rows) \<longrightarrow>
              (\<exists>r \<in> set rows. key r = i \<and> x = Some r)"
    and "\<forall>i. c = Some i \<and> i \<notin> set (map key rows) \<longrightarrow> x = None"
proof -
  show "\<forall>r. x = Some r \<longrightarrow> c = Some (key r) \<and> r \<in> set rows"
    unfolding assms by (cases c) (auto simp: find_Some_iff split: if_splits)
  show "\<forall>i. c = Some i \<and> i \<noteq> 0 \<and> i \<in> set (map key rows) \<longrightarrow>
              (\<exists>r \<in> set rows. key r = i \<and> x = Some r)"
    unfolding assms using find_key_present[of _ key rows] by (cases c) auto
  show "\<forall>i. c = Some i \<and> i \<notin> set (map key rows) \<longrightarrow> x = None"
    unfolding assms using find_key_absent[of _ key rows] by (cases c) auto
qed

section \<open>Friend requests\<close>

lemma getFriendship_None: "(getFriendship s a b = None) = (\<forall>f \<in> set (friends s). \<not> pair_row a b f)"
  unfolding getFriendship_def first_row_limit_one first_row_filter_None pair_row_def ..

lemma getFriendship_find: "getFriendship s a b = find (pair_row a b) (friends s)"
proof -
  have "pair_row a b = (\<lambda>f. (requesterId f = a \<and> addresseeId f = b) \<or>
                              (requesterId f = b \<and> addresseeId f = a))"
    by (rule ext) (simp add: pair_row_def)
  then show ?thesis
    unfolding getFriendship_def first_row_limit_one first_row_filter_find by simp
qed

lemma pair_row_commute: "pair_row a b = pair_row b a"
  by (rule ext) (auto simp: pair_row_def)

section \<open>The upload handler\<close>























section \<open>Evaluation of the date queries\<close>

lemma digit_chars:
  "digit_char 0 = CHR ''0''" "digit_char 1 = CHR ''1''" "digit_char 2 = CHR ''2''"
  "digit_char 3 = CHR ''3''" "digit_char 4 = CHR ''4''" "digit_char 5 = CHR ''5''"
  "digit_char 6 = CHR ''6''" "digit_char 7 = CHR ''7''" "digit_char 8 = CHR ''8''"
  "digit_char 9 = CHR ''9''" "digit_char (Suc 0) = CHR ''1''"
  by code_simp+

lemma january_1970_texts:
  "strftime_Y_m (1970, Suc 0) = ''1970-01''" "strftime_Y (1970, Suc 0) = ''1970''"
  "strftime_m (1970, Suc 0) = ''01''"
  by (simp_all add: strftime_Y_m_def strftime_Y_def strftime_m_def format_0d_def zero_pad_def
        digits.simps digit_chars)

lemma january_1970_parsed: "parseInt ''1970'' = Some 1970" "parseInt ''01'' = Some 1"
  by (simp_all add: parseInt_def is_space_def is_radix_digit_def char_digit_def
        digits_value_def Let_def)

lemma datetime_unixepoch_int: "datetime_unixepoch (of_int n) = n"
proof -
  have "\<lfloor>(of_int n :: real) * 1000 + 1 / 2\<rfloor> = n * 1000"
    by (simp add: floor_unique)
  then show ?thesis by (simp add: datetime_unixepoch_def)
qed

lemma datetime_unixepoch_numeral: "datetime_unixepoch (numeral k) = numeral k"
  using datetime_unixepoch_int[of "numeral k"] by simp

lemma datetime_unixepoch_ms: "datetime_unixepoch (of_int ms / 1000) = ms div 1000"
proof -
  have "\<lfloor>(of_int ms / 1000 :: real) * 1000 + 1 / 2\<rfloor> = ms"
    by (simp add: floor_unique)
  then show ?thesis by (simp add: datetime_unixepoch_def)
qed

lemma upload_response:
  "postImages store_friends 1700000000 (Some alice) (Some ''a.png'') None None None =
     (201, store_friends\<lparr>images :=
        [\<lparr>image_id = 2, image_userId = 1, path = ''/uploads/a.png'', image_description = Some [],
          uploadedAt = 1700000000\<rparr>],
        sqlite_sequence := (sqlite_sequence store_friends)(''images'' := 2)\<rparr>)"
  by (simp add: postImages_def createImage_def references_def next_id_def store_friends_def
        alice_def bob_def carol_def Let_def)

lemma images_store_uploaded:
  "images store_uploaded =
     [\<lparr>image_id = 2, image_userId = 1, path = ''/uploads/a.png'', image_description = Some [],
       uploadedAt = 1700000000\<rparr>]"
  by (simp add: store_uploaded_def upload_response)

section \<open>Claims\<close>

text \<open>
  C10. The friendship lookup is symmetric in its two arguments and matches a row in
  either orientation: for every store and every pair of user ids, \<open>getFriendship a b\<close> and
  \<open>getFriendship b a\<close> return the same row (or both nothing); what is returned is the
  first row of the table whose requester and addressee are \<open>a\<close> and \<open>b\<close> in one order or
  the other; whenever the table holds such a row, stored in either direction, both lookups
  find a row; and a row that is found is a row of the table that links the two users. So
  a duplicate is detected whichever of the two users sent the earlier request.
\<close>

theorem getFriendship_symmetric:
  "getFriendship s a b = getFriendship s b a \<and>
   getFriendship s a b =
     find (\<lambda>f. (requesterId f = a \<and> addresseeId f = b) \<or> (requesterId f = b \<and> addresseeId f = a))
       (friends s) \<and>
   (\<forall>f \<in> set (friends s).
      (requesterId f = a \<and> addresseeId f = b) \<or> (requesterId f = b \<and> addresseeId f = a) \<longrightarrow>
      getFriendship s a b \<noteq> None \<and> getFriendship s b a \<noteq> None) \<and>
   (\<forall>f. getFriendship s a b = Some f \<longrightarrow>
      f \<in> set (friends s) \<and>
      ((requesterId f = a \<and> addresseeId f = b) \<or> (requesterId f = b \<and> addresseeId f = a)))"
proof -
  have unfolded: "pair_row a b =
      (\<lambda>f. (requesterId f = a \<and> addresseeId f = b) \<or> (requesterId f = b \<and> addresseeId f = a))"
    by (rule ext) (simp add: pair_row_def)
  have 1: "getFriendship s a b = getFriendship s b a"
    unfolding getFriendship_find by (simp add: pair_row_commute[of a b])
  have 2: "getFriendship s a b =
     find (\<lambda>f. (requesterId f = a \<and> addresseeId f = b) \<or> (requesterId f = b \<and> addresseeId f = a))
       (friends s)"
    unfolding getFriendship_find unfolded ..
  have 3: "\<forall>f \<in> set (friends s).
      (requesterId f = a \<and> addresseeId f = b) \<or> (requesterId f = b \<and> addresseeId f = a) \<longrightarrow>
      getFriendship s a b \<noteq> None \<and> getFriendship s b a \<noteq> None"
    unfolding 1[symmetric] getFriendship_None pair_row_def by blast
  have 4: "\<forall>f. getFriendship s a b = Some f \<longrightarrow>
      f \<in> set (friends s) \<and>
      ((requesterId f = a \<and> addresseeId f = b) \<or> (requesterId f = b \<and> addresseeId f = a))"
    unfolding 2 by (auto simp: find_Some_iff)
  from 1 2 3 4 show ?thesis by blast
qed

theorem getFriendship_symmetric_witness:
  "getFriendship store_requests 1 2 = Some request_bob_alice \<and>
   getFriendship store_requests 2 1 = Some request_bob_alice \<and>
   getFriendship store_requests 1 3 = Some request_alice_carol \<and>
   getFriendship store_requests 3 1 = Some request_alice_carol \<and>
   getFriendship store_requests 2 3 = None \<and>
   getFriendship store_requests 3 2 = None"
proof -
  have a: "getFriendship store_requests 1 2 = Some request_bob_alice"
    "getFriendship store_requests 1 3 = Some request_alice_carol"
    "getFriendship store_requests 2 3 = None"
    by (simp_all add: getFriendship_def first_row_def limit_def store_requests_def
          request_bob_alice_def request_alice_carol_def)
  have b: "getFriendship store_requests 2 1 = getFriendship store_requests 1 2"
    "getFriendship store_requests 3 1 = getFriendship store_requests 1 3"
    "getFriendship store_requests 3 2 = getFriendship store_requests 2 3"
    using getFriendship_symmetric [of store_requests 2 1]
      getFriendship_symmetric [of store_requests 3 1]
      getFriendship_symmetric [of store_requests 3 2]
    by blast+
  from a b show ?thesis by simp
qed

text \<open>
  C1. \<open>userHasImageAccess u i\<close> is true exactly when one of three conditions holds: an
  image row with id \<open>i\<close> is owned by \<open>u\<close>; or some share row of image \<open>i\<close> names \<open>u\<close> as its
  user; or some share row of image \<open>i\<close> names a group for which a membership row of \<open>u\<close>
  exists. It is false when none of the three holds.
\<close>

theorem userHasImageAccess_iff:
  "userHasImageAccess s u i =
     ((\<exists>img \<in> set (images s). image_id img = i \<and> image_userId img = u) \<or>
      (\<exists>sh \<in> set (imageShares s). share_imageId sh = i \<and> share_userId sh = Some u) \<or>
      (\<exists>sh \<in> set (imageShares s). \<exists>m \<in> set (groupMembers s).
          share_imageId sh = i \<and> gm_userId m = u \<and> share_groupId sh = Some (gm_groupId m)))"
proof -
  let ?own = "\<exists>img \<in> set (images s). image_id img = i \<and> image_userId img = u"
  let ?direct = "\<exists>sh \<in> set (imageShares s). share_imageId sh = i \<and> share_userId sh = Some u"
  let ?grp = "\<exists>sh \<in> set (imageShares s). \<exists>m \<in> set (groupMembers s).
          share_imageId sh = i \<and> gm_userId m = u \<and> share_groupId sh = Some (gm_groupId m)"
  let ?ids = "map gm_groupId (filter (\<lambda>r. gm_userId r = u) (groupMembers s))"
  have ids_empty: "?ids = [] \<Longrightarrow> \<not> ?grp"
    by (auto simp: filter_empty_conv)
  have grp_iff: "(\<exists>r \<in> set (imageShares s). share_imageId r = i \<and> inArray (share_groupId r) ?ids) = ?grp"
    by (auto simp: inArray_iff)
  show ?thesis
    unfolding userHasImageAccess_def Let_def limit_one_nonempty filter_nonempty_iff
      eq_nullable_Some
    using ids_empty grp_iff by auto
qed

theorem userHasImageAccess_iff_witness:
  "userHasImageAccess store_access 1 1 \<and> userHasImageAccess store_access 2 1 \<and>
   userHasImageAccess store_access 3 3 \<and> \<not> userHasImageAccess store_access 3 1 \<and>
   \<not> userHasImageAccess store_access 2 2 \<and> \<not> userHasImageAccess store_access 3 2"
proof -
  have owner: "userHasImageAccess store_access 1 1"
    using userHasImageAccess_iff [of store_access 1 1]
    by (simp add: store_access_def picture1_def)
  have direct: "userHasImageAccess store_access 2 1"
    using userHasImageAccess_iff [of store_access 2 1]
    by (simp add: store_access_def)
  have by_group: "userHasImageAccess store_access 3 3"
    using userHasImageAccess_iff [of store_access 3 3]
    by (simp add: store_access_def)
  have none: "\<not> userHasImageAccess store_access 3 1" "\<not> userHasImageAccess store_access 2 2"
    "\<not> userHasImageAccess store_access 3 2"
    by (simp_all add: userHasImageAccess_def store_access_def picture1_def picture2_def limit_def
          eq_nullable_def inArray_def)
  from owner direct by_group none show ?thesis
    by blast
qed

text \<open>
  C3. \<open>deleteImage\<close> always completes. Afterwards no share row and no notification row
  names the image, and no image row has the id; the rows of other images are all kept.
  The dependent rows go first: in the store on which the statement deleting the image
  row runs, the shares and notifications of the image are already gone while the image
  table is still the original one.
\<close>

theorem deleteImage_removes_dependents_first:
  "\<exists>s'. deleteImage s i = Inr s' \<and>
      imageShares s' = filter (\<lambda>r. share_imageId r \<noteq> i) (imageShares s) \<and>
      notifications s' = filter (\<lambda>r. notif_imageId r \<noteq> Some i) (notifications s) \<and>
      images s' = filter (\<lambda>r. image_id r \<noteq> i) (images s) \<and>
      (\<forall>sh \<in> set (imageShares s'). share_imageId sh \<noteq> i) \<and>
      (\<forall>n \<in> set (notifications s'). notif_imageId n \<noteq> Some i) \<and>
      (\<forall>img \<in> set (images s'). image_id img \<noteq> i) \<and>
      (let before = delete_notifications_of (delete_shares_of s i) i
       in deleteImage s i = delete_image_row before i \<and>
          images before = images s \<and>
          (\<forall>sh \<in> set (imageShares before). share_imageId sh \<noteq> i) \<and>
          (\<forall>n \<in> set (notifications before). notif_imageId n \<noteq> Some i))"
  unfolding deleteImage_def delete_image_row_def delete_notifications_of_def delete_shares_of_def
  by (auto simp: eq_nullable_Some Let_def)

theorem deleteImage_removes_dependents_first_witness:
  "deleteImage store_shared 1 =
     Inr (store_shared\<lparr>images := [picture2], imageShares := [], notifications := []\<rparr>)"
  using deleteImage_removes_dependents_first [of store_shared 1]
  by (simp add: store_shared_def picture1_def picture2_def deleteImage_def delete_image_row_def
        delete_notifications_of_def delete_shares_of_def eq_nullable_def)

text \<open>
  C8. For an image that exists and has no share row, \<open>getImageWithShares\<close> returns the
  composite whose \<open>shares.users\<close> and \<open>shares.groups\<close> are both the empty list (the
  fields are always part of the object) and whose other fields are those of the image
  row.
\<close>

theorem getImageWithShares_no_shares:
  assumes "getImage s i = Some img"
      and "\<forall>sh \<in> set (imageShares s). share_imageId sh \<noteq> i"
  shows "\<exists>r. getImageWithShares ne_null s i = Some r \<and>
              shares_users (shares r) = [] \<and> shares_groups (shares r) = [] \<and>
              Image.truncate r = img \<and>
              r = Image.extend img \<lparr>shares = \<lparr>shares_users = [], shares_groups = []\<rparr>\<rparr>"
proof -
  have "filter (\<lambda>r. share_imageId r = i \<and> ne_null (share_userId r)) (imageShares s) = []"
    using assms(2) by (simp add: filter_empty_conv)
  moreover have "filter (\<lambda>r. share_imageId r = i \<and> ne_null (share_groupId r)) (imageShares s) = []"
    using assms(2) by (simp add: filter_empty_conv)
  ultimately have "getImageWithShares ne_null s i =
      Some (Image.extend img \<lparr>shares = \<lparr>shares_users = [], shares_groups = []\<rparr>\<rparr>)"
    using assms(1) by (simp add: getImageWithShares_def filter_Boolean_def)
  then show ?thesis
    by (simp add: Image.extend_def Image.truncate_def)
qed

theorem getImageWithShares_no_shares_witness:
  "getImageWithShares (\<lambda>c. c \<noteq> None) store_shared 2 =
     Some \<lparr>image_id = 2, image_userId = 1, path = ''/uploads/p2.png'',
           image_description = Some [], uploadedAt = 1701500000,
           shares = \<lparr>shares_users = [], shares_groups = []\<rparr>\<rparr>"
proof -
  have h1: "getImage store_shared 2 = Some picture2"
    by (simp add: getImage_first first_row_def store_shared_def picture1_def picture2_def)
  have h2: "\<forall>sh \<in> set (imageShares store_shared). share_imageId sh \<noteq> 2"
    by (simp add: store_shared_def)
  from getImageWithShares_no_shares [OF h1 h2, of "\<lambda>c. c \<noteq> None"]
  show ?thesis
    by (auto simp: picture2_def Image.extend_def)
qed

text \<open>
  C9. \<open>getUserNotifications\<close> never raises: it returns one composite for each
  notification of the user, most recent first, each carrying its notification unchanged.
  The sender of a composite is the user row with the id in \<open>senderId\<close> when that id is
  neither null nor 0, and is left out otherwise; likewise the group and the image. So a
  record is attached only when its id is non-null; a record whose row exists is attached;
  and when the id names no row (a dangling reference) the field is left out and the
  composite, with its other fields, is returned all the same: the rejection of
  \<open>getGroup\<close> for a missing group is caught.
\<close>

theorem getUserNotifications_total:
  "\<exists>ds. getUserNotifications s u = Inr ds \<and>
     map Notification.truncate ds =
       orderBy_desc notif_createdAt (filter (\<lambda>r. notif_userId r = u) (notifications s)) \<and>
     (\<forall>d \<in> set ds.
        details_sender d =
          (case senderId d of None \<Rightarrow> None
           | Some i \<Rightarrow> if i = 0 then None else find (\<lambda>r. user_id r = i) (users s)) \<and>
        details_group d =
          (case notif_groupId d of None \<Rightarrow> None
           | Some i \<Rightarrow> if i = 0 then None else find (\<lambda>r. group_id r = i) (groups s)) \<and>
        details_image d =
          (case notif_imageId d of None \<Rightarrow> None
           | Some i \<Rightarrow> if i = 0 then None else find (\<lambda>r. image_id r = i) (images s)) \<and>
        (\<forall>usr. details_sender d = Some usr \<longrightarrow>
                senderId d = Some (user_id usr) \<and> usr \<in> set (users s)) \<and>
        (\<forall>g. details_group d = Some g \<longrightarrow>
                notif_groupId d = Some (group_id g) \<and> g \<in> set (groups s)) \<and>
        (\<forall>img. details_image d = Some img \<longrightarrow>
                notif_imageId d = Some (image_id img) \<and> img \<in> set (images s)) \<and>
        (\<forall>i. senderId d = Some i \<and> i \<noteq> 0 \<and> i \<in> set (map user_id (users s)) \<longrightarrow>
                (\<exists>usr \<in> set (users s). user_id usr = i \<and> details_sender d = Some usr)) \<and>
        (\<forall>i. notif_groupId d = Some i \<and> i \<noteq> 0 \<and> i \<in> set (map group_id (groups s)) \<longrightarrow>
                (\<exists>g \<in> set (groups s). group_id g = i \<and> details_group d = Some g)) \<and>
        (\<forall>i. notif_imageId d = Some i \<and> i \<noteq> 0 \<and> i \<in> set (map image_id (images s)) \<longrightarrow>
                (\<exists>img \<in> set (images s). image_id img = i \<and> details_image d = Some img)) \<and>
        (\<forall>i. senderId d = Some i \<and> i \<notin> set (map user_id (users s)) \<longrightarrow>
                details_sender d = None) \<and>
        (\<forall>i. notif_groupId d = Some i \<and> i \<notin> set (map group_id (groups s)) \<longrightarrow>
                details_group d = None) \<and>
        (\<forall>i. notif_imageId d = Some i \<and> i \<notin> set (map image_id (images s)) \<longrightarrow>
                details_image d = None))"
proof -
  let ?rows = "orderBy_desc notif_createdAt (filter (\<lambda>r. notif_userId r = u) (notifications s))"
  have 1: "getUserNotifications s u = Inr (map (attach s) ?rows)"
    by (rule getUserNotifications_eq)
  have 2: "map Notification.truncate (map (attach s) ?rows) = ?rows"
    by (simp add: attach_truncate comp_def)
  have 3: "\<forall>d \<in> set (map (attach s) ?rows).
        details_sender d =
          (case senderId d of None \<Rightarrow> None
           | Some i \<Rightarrow> if i = 0 then None else find (\<lambda>r. user_id r = i) (users s)) \<and>
        details_group d =
          (case notif_groupId d of None \<Rightarrow> None
           | Some i \<Rightarrow> if i = 0 then None else find (\<lambda>r. group_id r = i) (groups s)) \<and>
        details_image d =
          (case notif_imageId d of None \<Rightarrow> None
           | Some i \<Rightarrow> if i = 0 then None else find (\<lambda>r. image_id r = i) (images s)) \<and>
        (\<forall>usr. details_sender d = Some usr \<longrightarrow>
                senderId d = Some (user_id usr) \<and> usr \<in> set (users s)) \<and>
        (\<forall>g. details_group d = Some g \<longrightarrow>
                notif_groupId d = Some (group_id g) \<and> g \<in> set (groups s)) \<and>
        (\<forall>img. details_image d = Some img \<longrightarrow>
                notif_imageId d = Some (image_id img) \<and> img \<in> set (images s)) \<and>
        (\<forall>i. senderId d = Some i \<and> i \<noteq> 0 \<and> i \<in> set (map user_id (users s)) \<longrightarrow>
                (\<exists>usr \<in> set (users s). user_id usr = i \<and> details_sender d = Some usr)) \<and>
        (\<forall>i. notif_groupId d = Some i \<and> i \<noteq> 0 \<and> i \<in> set (map group_id (groups s)) \<longrightarrow>
                (\<exists>g \<in> set (groups s). group_id g = i \<and> details_group d = Some g)) \<and>
        (\<forall>i. notif_imageId d = Some i \<and> i \<noteq> 0 \<and> i \<in> set (map image_id (images s)) \<longrightarrow>
                (\<exists>img \<in> set (images s). image_id img = i \<and> details_image d = Some img)) \<and>
        (\<forall>i. senderId d = Some i \<and> i \<notin> set (map user_id (users s)) \<longrightarrow>
                details_sender d = None) \<and>
        (\<forall>i. notif_groupId d = Some i \<and> i \<notin> set (map group_id (groups s)) \<longrightarrow>
                details_group d = None) \<and>
        (\<forall>i. notif_imageId d = Some i \<and> i \<notin> set (map image_id (images s)) \<longrightarrow>
                details_image d = None)"
  proof
    fix d assume "d \<in> set (map (attach s) ?rows)"
    then obtain n where d: "d = attach s n" by auto
    have sender: "details_sender d =
          (case senderId d of None \<Rightarrow> None
           | Some i \<Rightarrow> if i = 0 then None else find (\<lambda>r. user_id r = i) (users s))"
      unfolding d attach_fields by (rule attach_sender)
    have grp: "details_group d =
          (case notif_groupId d of None \<Rightarrow> None
           | Some i \<Rightarrow> if i = 0 then None else find (\<lambda>r. group_id r = i) (groups s))"
      unfolding d attach_fields by (rule attach_group)
    have img: "details_image d =
          (case notif_imageId d of None \<Rightarrow> None
           | Some i \<Rightarrow> if i = 0 then None else find (\<lambda>r. image_id r = i) (images s))"
      unfolding d attach_fields by (rule attach_image)
    from sender grp img lookup_cases[OF sender] lookup_cases[OF grp] lookup_cases[OF img]
    show "details_sender d =
          (case senderId d of None \<Rightarrow> None
           | Some i \<Rightarrow> if i = 0 then None else find (\<lambda>r. user_id r = i) (users s)) \<and>
        details_group d =
          (case notif_groupId d of None \<Rightarrow> None
           | Some i \<Rightarrow> if i = 0 then None else find (\<lambda>r. group_id r = i) (groups s)) \<and>
        details_image d =
          (case notif_imageId d of None \<Rightarrow> None
           | Some i \<Rightarrow> if i = 0 then None else find (\<lambda>r. image_id r = i) (images s)) \<and>
        (\<forall>usr. details_sender d = Some usr \<longrightarrow>
                senderId d = Some (user_id usr) \<and> usr \<in> set (users s)) \<and>
        (\<forall>g. details_group d = Some g \<longrightarrow>
                notif_groupId d = Some (group_id g) \<and> g \<in> set (groups s)) \<and>
        (\<forall>img. details_image d = Some img \<longrightarrow>
                notif_imageId d = Some (image_id img) \<and> img \<in> set (images s)) \<and>
        (\<forall>i. senderId d = Some i \<and> i \<noteq> 0 \<and> i \<in> set (map user_id (users s)) \<longrightarrow>
                (\<exists>usr \<in> set (users s). user_id usr = i \<and> details_sender d = Some usr)) \<and>
        (\<forall>i. notif_groupId d = Some i \<and> i \<noteq> 0 \<and> i \<in> set (map group_id (groups s)) \<longrightarrow>
                (\<exists>g \<in> set (groups s). group_id g = i \<and> details_group d = Some g)) \<and>
        (\<forall>i. notif_imageId d = Some i \<and> i \<noteq> 0 \<and> i \<in> set (map image_id (images s)) \<longrightarrow>
                (\<exists>img \<in> set (images s). image_id img = i \<and> details_image d = Some img)) \<and>
        (\<forall>i. senderId d = Some i \<and> i \<notin> set (map user_id (users s)) \<longrightarrow>
                details_sender d = None) \<and>
        (\<forall>i. notif_groupId d = Some i \<and> i \<notin> set (map group_id (groups s)) \<longrightarrow>
                details_group d = None) \<and>
        (\<forall>i. notif_imageId d = Some i \<and> i \<notin> set (map image_id (images s)) \<longrightarrow>
                details_image d = None)"
      by (intro conjI)
  qed
  from 1 2 3 show ?thesis by blast
qed

theorem getUserNotifications_total_witness:
  "getUserNotifications store_notified 1 =
     Inr [Notification.extend notification_mixed
            \<lparr>details_sender = Some bob, details_group = None, details_image = Some picture1\<rparr>,
          Notification.extend notification_dangling
            \<lparr>details_sender = None, details_group = None, details_image = None\<rparr>,
          Notification.extend notification_group
            \<lparr>details_sender = None, details_group = Some family, details_image = None\<rparr>]"
proof -
  have ev: "getUserNotifications store_notified 1 =
      Inr [attach store_notified notification_mixed, attach store_notified notification_dangling,
           attach store_notified notification_group]"
    by (simp add: getUserNotifications_eq store_notified_def notification_dangling_def
          notification_mixed_def notification_group_def orderBy_desc_def)
  have at: "attach store_notified notification_mixed =
      Notification.extend notification_mixed
        \<lparr>details_sender = Some bob, details_group = None, details_image = Some picture1\<rparr>"
    "attach store_notified notification_dangling =
      Notification.extend notification_dangling
        \<lparr>details_sender = None, details_group = None, details_image = None\<rparr>"
    "attach store_notified notification_group =
      Notification.extend notification_group
        \<lparr>details_sender = None, details_group = Some family, details_image = None\<rparr>"
    by (simp_all add: attach_def store_notified_def notification_dangling_def notification_mixed_def
          notification_group_def truthy_def getUser_first getImage_first first_row_def getGroup_def
          limit_def alice_def bob_def picture1_def family_def)
  from getUserNotifications_total [of store_notified 1] ev at show ?thesis
    by simp
qed

text \<open>
  C4, as stated, fails: the friendship row names its requester and its addressee as
  users, and the engine rejects the insert when the addressee is the id of no user. Bob
  asks for the friendship of user 9, who does not exist; the two ids differ and no row
  links them, yet the answer is 500 and no row is created.
\<close>

theorem postFriendRequest_unknown_addressee:
  "user_id bob \<noteq> 9 \<and>
   filter (pair_row (user_id bob) 9) (friends store_friends) = [] \<and>
   getFriendship store_friends (user_id bob) 9 = None \<and>
   postFriendRequest store_friends 1700000500 (Some bob) 9 = (500, store_friends)"
  by (simp add: postFriendRequest_def getFriendship_def first_row_def limit_def pair_row_def
        createFriend_def references_def store_friends_def alice_def bob_def carol_def Let_def)

text \<open>
  C4, amended. A friend request by an authenticated requester toward addressee \<open>a\<close> is
  answered with 400, and leaves the store as it was (no friendship row, no notification),
  when requester and addressee are the same user or when a friendship row already links
  the two in either direction, whatever its status. Otherwise, when requester and
  addressee are both users of the store, the answer is 201 and the store gains one
  friendship row from requester to addressee with status \<open>pending\<close>, and the notification
  to the addressee, each with the next id of its table. Otherwise one of the two is no
  user of the store, the insert violates its reference, and the answer is 500 with the
  store unchanged.
\<close>

theorem postFriendRequest_outcomes:
  "(user_id user = a \<or> (\<exists>f \<in> set (friends s). pair_row (user_id user) a f)
      \<longrightarrow> postFriendRequest s now (Some user) a = (400, s)) \<and>
   (user_id user \<noteq> a \<and> \<not> (\<exists>f \<in> set (friends s). pair_row (user_id user) a f) \<and>
    user_id user \<in> set (map user_id (users s)) \<and> a \<in> set (map user_id (users s))
      \<longrightarrow> postFriendRequest s now (Some user) a =
            (201, s\<lparr>friends := friends s @
                       [\<lparr>friend_id = next_id (map friend_id (friends s)) (sqlite_sequence s ''friends''),
                         requesterId = user_id user, addresseeId = a, status = ''pending'',
                         friend_createdAt = now\<rparr>],
                     notifications := notifications s @
                       [\<lparr>notif_id = next_id (map notif_id (notifications s))
                                     (sqlite_sequence s ''notifications''),
                         notif_userId = a, notif_type = ''friend_request'',
                         content = username user @ '' sent you a friend request'',
                         senderId = Some (user_id user), notif_groupId = None,
                         notif_imageId = None, isRead = False, notif_createdAt = now\<rparr>],
                     sqlite_sequence := (sqlite_sequence s)
                       (''friends'' := next_id (map friend_id (friends s)) (sqlite_sequence s ''friends''),
                        ''notifications'' := next_id (map notif_id (notifications s))
                                     (sqlite_sequence s ''notifications''))\<rparr>)) \<and>
   (user_id user \<noteq> a \<and> \<not> (\<exists>f \<in> set (friends s). pair_row (user_id user) a f) \<and>
    \<not> (user_id user \<in> set (map user_id (users s)) \<and> a \<in> set (map user_id (users s)))
      \<longrightarrow> postFriendRequest s now (Some user) a = (500, s))"
proof (intro conjI impI)
  assume "user_id user = a \<or> (\<exists>f \<in> set (friends s). pair_row (user_id user) a f)"
  then show "postFriendRequest s now (Some user) a = (400, s)"
    using getFriendship_None[of s "user_id user" a]
    by (auto simp: postFriendRequest_def Let_def split: option.splits)
next
  assume h: "user_id user \<noteq> a \<and> \<not> (\<exists>f \<in> set (friends s). pair_row (user_id user) a f) \<and>
    user_id user \<in> set (map user_id (users s)) \<and> a \<in> set (map user_id (users s))"
  then have none: "getFriendship s (user_id user) a = None"
    by (simp add: getFriendship_None)
  show "postFriendRequest s now (Some user) a =
            (201, s\<lparr>friends := friends s @
                       [\<lparr>friend_id = next_id (map friend_id (friends s)) (sqlite_sequence s ''friends''),
                         requesterId = user_id user, addresseeId = a, status = ''pending'',
                         friend_createdAt = now\<rparr>],
                     notifications := notifications s @
                       [\<lparr>notif_id = next_id (map notif_id (notifications s))
                                     (sqlite_sequence s ''notifications''),
                         notif_userId = a, notif_type = ''friend_request'',
                         content = username user @ '' sent you a friend request'',
                         senderId = Some (user_id user), notif_groupId = None,
                         notif_imageId = None, isRead = False, notif_createdAt = now\<rparr>],
                     sqlite_sequence := (sqlite_sequence s)
                       (''friends'' := next_id (map friend_id (friends s)) (sqlite_sequence s ''friends''),
                        ''notifications'' := next_id (map notif_id (notifications s))
                                     (sqlite_sequence s ''notifications''))\<rparr>)"
    using h none
    by (simp add: postFriendRequest_def createFriend_def createNotification_def references_def
          references_nullable_def Let_def)
next
  assume h: "user_id user \<noteq> a \<and> \<not> (\<exists>f \<in> set (friends s). pair_row (user_id user) a f) \<and>
    \<not> (user_id user \<in> set (map user_id (users s)) \<and> a \<in> set (map user_id (users s)))"
  then have none: "getFriendship s (user_id user) a = None"
    by (simp add: getFriendship_None)
  have "createFriend s now (user_id user) a = Inl fk_error"
    using h by (auto simp: createFriend_def references_def)
  then show "postFriendRequest s now (Some user) a = (500, s)"
    using h none by (simp add: postFriendRequest_def Let_def)
qed

theorem postFriendRequest_outcomes_witness:
  "postFriendRequest store_friends 1700000500 (Some bob) 1 = (400, store_friends) \<and>
   postFriendRequest store_friends 1700000500 (Some bob) 2 = (400, store_friends) \<and>
   postFriendRequest store_friends 1700000500 (Some bob) 3 =
     (201, store_friends\<lparr>friends := friends store_friends @
       [\<lparr>friend_id = 2, requesterId = 2, addresseeId = 3, status = ''pending'',
         friend_createdAt = 1700000500\<rparr>],
       notifications := [\<lparr>notif_id = 3, notif_userId = 3, notif_type = ''friend_request'',
           content = ''bob sent you a friend request'', senderId = Some 2, notif_groupId = None,
           notif_imageId = None, isRead = False, notif_createdAt = 1700000500\<rparr>],
       sqlite_sequence := (sqlite_sequence store_friends)(''friends'' := 2, ''notifications'' := 3)\<rparr>) \<and>
   postFriendRequest store_friends 1700000500 (Some carol) 8 = (500, store_friends)"
proof -
  have dup: "postFriendRequest store_friends 1700000500 (Some bob) 1 = (400, store_friends)"
    using postFriendRequest_outcomes [of bob 1 store_friends 1700000500]
    by (simp add: pair_row_def store_friends_def bob_def)
  have self: "postFriendRequest store_friends 1700000500 (Some bob) 2 = (400, store_friends)"
    using postFriendRequest_outcomes [of bob 2 store_friends 1700000500]
    by (simp add: bob_def)
  have new: "postFriendRequest store_friends 1700000500 (Some bob) 3 =
     (201, store_friends\<lparr>friends := friends store_friends @
       [\<lparr>friend_id = 2, requesterId = 2, addresseeId = 3, status = ''pending'',
         friend_createdAt = 1700000500\<rparr>],
       notifications := [\<lparr>notif_id = 3, notif_userId = 3, notif_type = ''friend_request'',
           content = ''bob sent you a friend request'', senderId = Some 2, notif_groupId = None,
           notif_imageId = None, isRead = False, notif_createdAt = 1700000500\<rparr>],
       sqlite_sequence := (sqlite_sequence store_friends)(''friends'' := 2, ''notifications'' := 3)\<rparr>)"
    using postFriendRequest_outcomes [of bob 3 store_friends 1700000500]
    by (simp add: pair_row_def next_id_def store_friends_def alice_def bob_def carol_def)
  have missing: "postFriendRequest store_friends 1700000500 (Some carol) 8 = (500, store_friends)"
    using postFriendRequest_outcomes [of carol 8 store_friends 1700000500]
    by (simp add: pair_row_def store_friends_def alice_def bob_def carol_def)
  from dup self new missing show ?thesis
    by blast
qed

text \<open>
  C2, as stated, fails: the respond handler does not read the status of the row it
  updates. On a store whose only friendship row is already accepted, the addressee's
  response \<open>declined\<close> is answered with 200 and the row becomes declined.
\<close>

theorem putFriendRequest_accepted_row_updated:
  "map status (friends store_friends) = [''accepted''] \<and>
   fst (putFriendRequest store_friends 1700000500 (Some bob) 1 ''declined'') = 200 \<and>
   map status (friends (snd (putFriendRequest store_friends 1700000500 (Some bob) 1 ''declined''))) = [''declined'']"
  by (simp add: putFriendRequest_def getFriendRequest_def first_row_def limit_def updateFriendRequest_def
        createNotification_def references_def references_nullable_def next_id_def
        store_friends_def alice_def bob_def carol_def Let_def)

text \<open>
  C2, amended. The respond operation changes the friendship table only by setting the
  status of the row with the given id, and only to \<open>accepted\<close> or \<open>declined\<close> (never to
  \<open>pending\<close>); it does so exactly when the caller is authenticated, the status sent is
  one of the two, and the row exists with the caller as its addressee (the answers 200
  and 500), whatever the row's current status. In every other case the table is
  unchanged.
\<close>

theorem putFriendRequest_sets_status:
  "friends (snd (putFriendRequest s now reqUser requestId st)) =
     (if responds s reqUser requestId st
      then map (\<lambda>f. if friend_id f = requestId then f\<lparr>status := st\<rparr> else f) (friends s)
      else friends s) \<and>
   (responds s reqUser requestId st \<longleftrightarrow> fst (putFriendRequest s now reqUser requestId st) \<in> {200, 500}) \<and>
   (responds s reqUser requestId st \<longrightarrow> st = ''accepted'' \<or> st = ''declined'')"
  by (auto simp: putFriendRequest_def responds_def updateFriendRequest_def createNotification_def Let_def
        split: option.splits sum.splits prod.splits)

theorem putFriendRequest_sets_status_witness:
  "responds store_friends (Some bob) 1 ''declined'' \<and>
   friends (snd (putFriendRequest store_friends 1700000500 (Some bob) 1 ''declined'')) =
     [\<lparr>friend_id = 1, requesterId = 1, addresseeId = 2, status = ''declined'', friend_createdAt = 1690002000\<rparr>]"
proof -
  have r: "responds store_friends (Some bob) 1 ''declined''"
    by (simp add: responds_def getFriendRequest_def first_row_def limit_def store_friends_def bob_def)
  from putFriendRequest_sets_status [of store_friends 1700000500 "Some bob" 1 "''declined''"] r
  show ?thesis by (simp add: store_friends_def)
qed




text \<open>
  C6 does not hold of the code. The column \<open>uploaded_at\<close> holds seconds, and the query
  divides it by 1000 as if it held milliseconds before it reads it as seconds. Alice's
  upload of 14 November 2023 is answered with 201 and stored with the second
  1700000000, whose month is November 2023; \<open>getUserImageDates\<close> reports January 1970
  for it, the month of the second 1700000.
\<close>

theorem getUserImageDates_reports_1970:
  "fst (postImages store_friends 1700000000 (Some alice) (Some ''a.png'') None None None) = 201 \<and>
   map uploadedAt (filter (\<lambda>r. image_userId r = 1) (images store_uploaded)) = [1700000000] \<and>
   map (image_date calendar_utc) (filter (\<lambda>r. image_userId r = 1) (images store_uploaded)) =
     [(2023, 11)] \<and>
   getUserImageDates calendar_utc store_uploaded 1 = [\<lparr>year = Some 1970, month = Some 0\<rparr>]"
proof -
  have stored: "fst (postImages store_friends 1700000000 (Some alice) (Some ''a.png'') None None None) = 201"
    by (simp add: upload_response)
  have uploaded: "map uploadedAt (filter (\<lambda>r. image_userId r = 1) (images store_uploaded)) = [1700000000]"
    "map (image_date calendar_utc) (filter (\<lambda>r. image_userId r = 1) (images store_uploaded)) =
       [(2023, 11)]"
    by (simp_all add: images_store_uploaded image_date_def calendar_utc_def)
  have reported: "getUserImageDates calendar_utc store_uploaded 1 = [\<lparr>year = Some 1970, month = Some 0\<rparr>]"
    by (simp add: getUserImageDates_def images_store_uploaded calendar_utc_def signed_divide_int_def
          january_1970_texts january_1970_parsed List.map_filter_def Let_def)
  from stored uploaded reported show ?thesis by simp
qed

theorem getUserImageDates_reports_1970_witness:
  "images store_uploaded =
     [\<lparr>image_id = 2, image_userId = 1, path = ''/uploads/a.png'', image_description = Some [],
       uploadedAt = 1700000000\<rparr>] \<and>
   getUserImageDates calendar_utc store_uploaded 1 \<noteq> [\<lparr>year = Some 2023, month = Some 10\<rparr>]"
  using getUserImageDates_reports_1970
  by (simp add: images_store_uploaded)

text \<open>
  C7 does not hold of the code, by the same defect. Alice's image was uploaded at the
  instant 1700000000000, between the first instant of November 2023 and the first
  instant of December 2023, but \<open>getUserImagesByDate\<close> returns nothing for November 2023:
  it compares the second 1700000 with the bounds of the month. The image is returned for
  January 1970 instead.
\<close>

theorem getUserImagesByDate_misses_upload:
  "map upload_instant (filter (\<lambda>r. image_userId r = 1) (images store_uploaded)) = [1700000000000] \<and>
   month_first_instant month_start_utc utc 2023 10 = 1698796800000 \<and>
   month_first_instant month_start_utc utc 2023 11 = 1701388800000 \<and>
   getUserImagesByDate month_start_utc utc store_uploaded 1 2023 10 = [] \<and>
   getUserImagesByDate month_start_utc utc store_uploaded 1 1970 0 = images store_uploaded"
proof -
  have instant: "map upload_instant (filter (\<lambda>r. image_userId r = 1) (images store_uploaded)) =
      [1700000000000]"
    by (simp add: images_store_uploaded upload_instant_def)
  have bounds: "month_first_instant month_start_utc utc 2023 10 = 1698796800000"
    "month_first_instant month_start_utc utc 2023 11 = 1701388800000"
    by (simp_all add: month_first_instant_def new_Date_def MakeDate_def MakeDay_def MakeTime_def
          month_start_utc_def utc_def)
  have november: "getUserImagesByDate month_start_utc utc store_uploaded 1 2023 10 = []"
    by (simp add: getUserImagesByDate_def images_store_uploaded new_Date_def MakeDate_def MakeDay_def
          MakeTime_def month_start_utc_def utc_def datetime_unixepoch_int datetime_unixepoch_ms
          datetime_unixepoch_numeral signed_divide_int_def orderBy_desc_def Let_def)
  have january: "getUserImagesByDate month_start_utc utc store_uploaded 1 1970 0 = images store_uploaded"
    by (simp add: getUserImagesByDate_def images_store_uploaded new_Date_def MakeDate_def MakeDay_def
          MakeTime_def month_start_utc_def utc_def datetime_unixepoch_int datetime_unixepoch_ms
          datetime_unixepoch_numeral signed_divide_int_def orderBy_desc_def Let_def)
  from instant bounds november january show ?thesis by simp
qed

theorem getUserImagesByDate_misses_upload_witness:
  "filter (\<lambda>r. image_userId r = 1 \<and>
               month_first_instant month_start_utc utc 2023 10 \<le> upload_instant r \<and>
               upload_instant r < month_first_instant month_start_utc utc 2023 11)
     (images store_uploaded) = images store_uploaded \<and>
   images store_uploaded \<noteq> [] \<and>
   getUserImagesByDate month_start_utc utc store_uploaded 1 2023 10 \<noteq> images store_uploaded"
  using getUserImagesByDate_misses_upload
  by (simp add: images_store_uploaded upload_instant_def)

end
